theory Spec2Isabelle
  imports Main "HOL-Library.Word" "HOL-Library.List_Lexorder"
begin

section \<open>Python values as \<^verbatim>\<open>json.load\<close> builds them\<close>

text \<open>
  The script \<^verbatim>\<open>merge_bible_references.py\<close> works on the values that \<^verbatim>\<open>json.load\<close>
  returns: \<^verbatim>\<open>None\<close>, booleans, unbounded integers, floats, strings, lists and dicts.
  A Python string is a sequence of code points, so it is a list of naturals here; a float is
  its IEEE-754 bit pattern. A dict keeps insertion order, so it is an association list. The
  keys of a dict that \<^verbatim>\<open>json.load\<close> builds are strings, but \<^verbatim>\<open>dict.update\<close> with a list
  of pairs can add any hashable key, so keys have a type of their own.
\<close>

type_synonym pystr = "nat list"

datatype pykey = KNone | KBool bool | KInt int | KFloat "64 word" | KStr pystr

datatype pyval =
    PNone
  | PBool bool
  | PInt int
  | PFloat "64 word"
  | PStr pystr
  | PList "pyval list"
  | PDict "(pykey \<times> pyval) list"

type_synonym pydict = "(pykey \<times> pyval) list"

text \<open>The exceptions the script can meet; all of them are subclasses of \<^verbatim>\<open>Exception\<close>.\<close>

datatype py_error =
    AttributeError | TypeError | ValueError | IndexError | KeyError
  | OSError | JSONDecodeError | UnicodeDecodeError

definition str_of :: "string \<Rightarrow> pystr" where
  "str_of s = map of_char s"

definition key_r :: pykey where
  "key_r = KStr [114]"

definition key_v :: pykey where
  "key_v = KStr [118]"

subsection \<open>Equality of dict keys\<close>

text \<open>
  Python compares numeric keys by value: \<^verbatim>\<open>True == 1 == 1.0\<close>. A float is equal to an
  integer when its exact value is that integer (a subnormal float is below one in magnitude,
  so only zero qualifies there); two floats are equal when they have the same
  bits or are both zero (the only NaN that \<^verbatim>\<open>json.load\<close> returns is the one object
  \<^verbatim>\<open>json.decoder.NaN\<close>, which a dict finds by identity).
\<close>

definition float_is_zero :: "64 word \<Rightarrow> bool" where
  "float_is_zero w = (uint w mod 2 ^ 63 = 0)"

definition float_eq_int :: "64 word \<Rightarrow> int \<Rightarrow> bool" where
  "float_eq_int w i =
     (let e = nat ((uint w div 2 ^ 52) mod 2 ^ 11);
          m = uint w mod 2 ^ 52;
          M = (if e = 0 then m else 2 ^ 52 + m);
          S = (if 2 ^ 63 \<le> uint w then - M else M)
      in if e = 2047 then False
         else if e = 0 then m = 0 \<and> i = 0
         else if 1075 \<le> e then i = S * 2 ^ (e - 1075)
         else i * 2 ^ (1075 - e) = S)"

fun key_eq_int :: "pykey \<Rightarrow> int \<Rightarrow> bool" where
  "key_eq_int (KInt j) i = (j = i)"
| "key_eq_int (KBool b) i = (of_bool b = i)"
| "key_eq_int (KFloat w) i = float_eq_int w i"
| "key_eq_int KNone i = False"
| "key_eq_int (KStr s) i = False"

fun key_eq :: "pykey \<Rightarrow> pykey \<Rightarrow> bool" where
  "key_eq (KStr s) k = (k = KStr s)"
| "key_eq KNone k = (k = KNone)"
| "key_eq (KBool b) k = key_eq_int k (of_bool b)"
| "key_eq (KInt i) k = key_eq_int k i"
| "key_eq (KFloat w) (KFloat w') = (w = w' \<or> (float_is_zero w \<and> float_is_zero w'))"
| "key_eq (KFloat w) (KInt i) = float_eq_int w i"
| "key_eq (KFloat w) (KBool b) = float_eq_int w (of_bool b)"
| "key_eq (KFloat w) KNone = False"
| "key_eq (KFloat w) (KStr s) = False"

subsection \<open>Dict operations\<close>

text \<open>\<^verbatim>\<open>d.get(k)\<close>, \<^verbatim>\<open>k in d\<close> and \<^verbatim>\<open>d[k]\<close>: the value under the first equal key.\<close>

fun dict_find :: "pydict \<Rightarrow> pykey \<Rightarrow> pyval option" where
  "dict_find [] k = None"
| "dict_find ((k', v') # d) k = (if key_eq k k' then Some v' else dict_find d k)"

text \<open>\<^verbatim>\<open>d[k] = v\<close>: an equal key keeps its place (and the key object), a new key goes last.\<close>

fun dict_setitem :: "pydict \<Rightarrow> pykey \<Rightarrow> pyval \<Rightarrow> pydict" where
  "dict_setitem [] k v = [(k, v)]"
| "dict_setitem ((k', v') # d) k v =
     (if key_eq k k' then (k', v) # d else (k', v') # dict_setitem d k v)"

text \<open>\<^verbatim>\<open>'r' in x\<close>: key test on a dict, element test on a list, substring test on a string,
  \<^verbatim>\<open>TypeError\<close> on everything else.\<close>

fun contains_r :: "pyval \<Rightarrow> py_error + bool" where
  "contains_r (PDict d) = Inr (dict_find d key_r \<noteq> None)"
| "contains_r (PList xs) = Inr (List.member xs (PStr [114]))"
| "contains_r (PStr s) = Inr (List.member s 114)"
| "contains_r PNone = Inl TypeError"
| "contains_r (PBool b) = Inl TypeError"
| "contains_r (PInt i) = Inl TypeError"
| "contains_r (PFloat w) = Inl TypeError"

text \<open>\<^verbatim>\<open>x['r']\<close>: only a dict can be indexed by a string.\<close>

fun getitem_r :: "pyval \<Rightarrow> py_error + pyval" where
  "getitem_r (PDict d) = (case dict_find d key_r of None \<Rightarrow> Inl KeyError | Some v \<Rightarrow> Inr v)"
| "getitem_r (PList xs) = Inl TypeError"
| "getitem_r (PStr s) = Inl TypeError"
| "getitem_r PNone = Inl TypeError"
| "getitem_r (PBool b) = Inl TypeError"
| "getitem_r (PInt i) = Inl TypeError"
| "getitem_r (PFloat w) = Inl TypeError"

text \<open>
  \<^verbatim>\<open>d.update(other)\<close>. A dict argument is merged key by key. Any other argument is iterated
  and each element must be a sequence of length two with a hashable first component; the
  entries stored before a bad element stay (the dict is mutated in place).
\<close>

fun as_key :: "pyval \<Rightarrow> py_error + pykey" where
  "as_key PNone = Inr KNone"
| "as_key (PBool b) = Inr (KBool b)"
| "as_key (PInt i) = Inr (KInt i)"
| "as_key (PFloat w) = Inr (KFloat w)"
| "as_key (PStr s) = Inr (KStr s)"
| "as_key (PList xs) = Inl TypeError"
| "as_key (PDict d) = Inl TypeError"

fun key_value :: "pykey \<Rightarrow> pyval" where
  "key_value KNone = PNone"
| "key_value (KBool b) = PBool b"
| "key_value (KInt i) = PInt i"
| "key_value (KFloat w) = PFloat w"
| "key_value (KStr s) = PStr s"

fun update_pair :: "pyval \<Rightarrow> py_error + (pykey \<times> pyval)" where
  "update_pair (PStr s) =
     (case s of [a, b] \<Rightarrow> Inr (KStr [a], PStr [b]) | _ \<Rightarrow> Inl ValueError)"
| "update_pair (PList xs) =
     (case xs of
        [k, v] \<Rightarrow> (case as_key k of Inl e \<Rightarrow> Inl e | Inr k' \<Rightarrow> Inr (k', v))
      | _ \<Rightarrow> Inl ValueError)"
| "update_pair (PDict d) =
     (case d of [(k1, v1), (k2, v2)] \<Rightarrow> Inr (k1, key_value k2) | _ \<Rightarrow> Inl ValueError)"
| "update_pair PNone = Inl TypeError"
| "update_pair (PBool b) = Inl TypeError"
| "update_pair (PInt i) = Inl TypeError"
| "update_pair (PFloat w) = Inl TypeError"

fun update_seq :: "pydict \<Rightarrow> pyval list \<Rightarrow> pydict \<times> py_error option" where
  "update_seq d [] = (d, None)"
| "update_seq d (x # xs) =
     (case update_pair x of
        Inl e \<Rightarrow> (d, Some e)
      | Inr (k, v) \<Rightarrow> update_seq (dict_setitem d k v) xs)"

fun update_items :: "pydict \<Rightarrow> (pykey \<times> pyval) list \<Rightarrow> pydict" where
  "update_items d [] = d"
| "update_items d ((k, v) # kvs) = update_items (dict_setitem d k v) kvs"

fun dict_update :: "pydict \<Rightarrow> pyval \<Rightarrow> pydict \<times> py_error option" where
  "dict_update d (PDict other) = (update_items d other, None)"
| "dict_update d (PList xs) = update_seq d xs"
| "dict_update d (PStr s) = update_seq d (map (\<lambda>c. PStr [c]) s)"
| "dict_update d PNone = (d, Some TypeError)"
| "dict_update d (PBool b) = (d, Some TypeError)"
| "dict_update d (PInt i) = (d, Some TypeError)"
| "dict_update d (PFloat w) = (d, Some TypeError)"

text \<open>\<^verbatim>\<open>len(x)\<close>\<close>

fun py_len :: "pyval \<Rightarrow> py_error + nat" where
  "py_len (PDict d) = Inr (length d)"
| "py_len (PList xs) = Inr (length xs)"
| "py_len (PStr s) = Inr (length s)"
| "py_len PNone = Inl TypeError"
| "py_len (PBool b) = Inl TypeError"
| "py_len (PInt i) = Inl TypeError"
| "py_len (PFloat w) = Inl TypeError"

text \<open>Truth value of an object in \<^verbatim>\<open>if x:\<close>\<close>

fun py_truthy :: "pyval \<Rightarrow> bool" where
  "py_truthy PNone = False"
| "py_truthy (PBool b) = b"
| "py_truthy (PInt i) = (i \<noteq> 0)"
| "py_truthy (PFloat w) = (\<not> float_is_zero w)"
| "py_truthy (PStr s) = (s \<noteq> [])"
| "py_truthy (PList xs) = (xs \<noteq> [])"
| "py_truthy (PDict d) = (d \<noteq> [])"

subsection \<open>\<^verbatim>\<open>str.split()\<close>\<close>

text \<open>The code points for which \<^verbatim>\<open>str.isspace\<close> holds; \<^verbatim>\<open>split()\<close> without arguments
  cuts at runs of them and returns no empty token.\<close>

definition is_space :: "nat \<Rightarrow> bool" where
  "is_space c =
     (c \<in> {9, 10, 11, 12, 13, 28, 29, 30, 31, 32, 133, 160, 5760,
            8232, 8233, 8239, 8287, 12288}
      \<or> (8192 \<le> c \<and> c \<le> 8202))"

function py_split :: "pystr \<Rightarrow> pystr list" where
  "py_split s =
     (case dropWhile is_space s of
        [] \<Rightarrow> []
      | c # cs \<Rightarrow> takeWhile (\<lambda>x. \<not> is_space x) (c # cs)
                 # py_split (dropWhile (\<lambda>x. \<not> is_space x) cs))"
  by pat_completeness auto
termination
proof (relation "measure length")
  show "wf (measure length)" by simp
next
  fix s :: pystr and c cs
  assume eq: "dropWhile is_space s = c # cs"
  have "length (dropWhile (\<lambda>x. \<not> is_space x) cs) \<le> length cs"
    by (rule length_dropWhile_le)
  moreover have "length (c # cs) \<le> length s"
    using length_dropWhile_le [of is_space s] eq by simp
  ultimately show "(dropWhile (\<lambda>x. \<not> is_space x) cs, s) \<in> measure length"
    by simp
qed

declare py_split.simps [simp del]

section \<open>The merger\<close>

text \<open>
  The directory is the list of its entries as the file system enumerates them (in any order):
  a name, and what \<^verbatim>\<open>open\<close> followed by \<^verbatim>\<open>json.load\<close> does on that entry: raise an
  exception or return a value. \<^verbatim>\<open>Path.glob('*.json')\<close> keeps the names that end in
  \<^verbatim>\<open>.json\<close> and \<^verbatim>\<open>sorted\<close> orders the paths of one directory by name, code point by code
  point (POSIX paths). Console output is not part of the model, except for the error reports.
\<close>

type_synonym loaded = "py_error + pyval"
type_synonym directory = "(pystr \<times> loaded) list"

definition dot_json :: pystr where
  "dot_json = [46, 106, 115, 111, 110]"

definition ends_with :: "pystr \<Rightarrow> pystr \<Rightarrow> bool" where
  "ends_with suf s = (length suf \<le> length s \<and> drop (length s - length suf) s = suf)"

definition glob_json :: "directory \<Rightarrow> directory" where
  "glob_json dir = filter (\<lambda>entry. ends_with dot_json (fst entry)) dir"

text \<open>Lines 45 to 51: one pair of \<^verbatim>\<open>data.items()\<close>. The result is the combined mapping after
  the statement and the exception it raised, if any.\<close>

fun set_r :: "pyval \<Rightarrow> pyval \<Rightarrow> pyval" where
  "set_r (PDict d) r = PDict (dict_setitem d key_r r)"
| "set_r x r = x"

definition merge_verse :: "pydict \<Rightarrow> pykey \<Rightarrow> pyval \<Rightarrow> pydict \<times> py_error option" where
  "merge_verse merged_data verse_id verse_data =
     (case dict_find merged_data verse_id of
        None \<Rightarrow> (dict_setitem merged_data verse_id verse_data, None)
      | Some existing \<Rightarrow>
          (case contains_r verse_data of
             Inl e \<Rightarrow> (merged_data, Some e)
           | Inr False \<Rightarrow> (merged_data, None)
           | Inr True \<Rightarrow>
               (case contains_r existing of
                  Inl e \<Rightarrow> (merged_data, Some e)
                | Inr False \<Rightarrow> (merged_data, None)
                | Inr True \<Rightarrow>
                    (case getitem_r existing of
                       Inl e \<Rightarrow> (merged_data, Some e)
                     | Inr (PDict old_r) \<Rightarrow>
                         (case getitem_r verse_data of
                            Inl e \<Rightarrow> (merged_data, Some e)
                          | Inr new_r \<Rightarrow>
                              (case dict_update old_r new_r of
                                 (r', err) \<Rightarrow>
                                   (dict_setitem merged_data verse_id
                                      (set_r existing (PDict r')), err)))
                     | Inr _ \<Rightarrow> (merged_data, Some AttributeError)))))"

text \<open>Line 44: the loop over \<^verbatim>\<open>data.items()\<close> stops at the first exception; what it stored
  before stays in the combined mapping.\<close>

fun merge_items :: "pydict \<Rightarrow> (pykey \<times> pyval) list \<Rightarrow> pydict \<times> py_error option" where
  "merge_items merged_data [] = (merged_data, None)"
| "merge_items merged_data ((verse_id, verse_data) # rest) =
     (case merge_verse merged_data verse_id verse_data of
        (merged_data', None) \<Rightarrow> merge_items merged_data' rest
      | (merged_data', Some e) \<Rightarrow> (merged_data', Some e))"

fun py_items :: "pyval \<Rightarrow> py_error + (pykey \<times> pyval) list" where
  "py_items (PDict d) = Inr d"
| "py_items x = Inl AttributeError"

text \<open>Lines 39 to 55: the body of the \<^verbatim>\<open>try\<close> for one file.\<close>

definition process_file :: "pydict \<Rightarrow> loaded \<Rightarrow> pydict \<times> py_error option" where
  "process_file merged_data file =
     (case file of
        Inl e \<Rightarrow> (merged_data, Some e)
      | Inr data \<Rightarrow>
          (case py_items data of
             Inl e \<Rightarrow> (merged_data, Some e)
           | Inr items \<Rightarrow> merge_items merged_data items))"

text \<open>Line 36: the loop over the files. Its state is the combined mapping and the list of the
  reports \<^verbatim>\<open>Error processing <name>: <e>\<close> printed so far.\<close>

fun merge_files ::
  "pydict \<times> (pystr \<times> py_error) list \<Rightarrow> directory \<Rightarrow> pydict \<times> (pystr \<times> py_error) list" where
  "merge_files st [] = st"
| "merge_files (merged_data, errs) ((name, file) # rest) =
     (case process_file merged_data file of
        (merged_data', None) \<Rightarrow> merge_files (merged_data', errs) rest
      | (merged_data', Some e) \<Rightarrow> merge_files (merged_data', errs @ [(name, e)]) rest)"

text \<open>Line 59: \<^verbatim>\<open>sum(len(v.get('r', {})) for v in merged_data.values())\<close>, outside every
  \<^verbatim>\<open>try\<close>.\<close>

fun count_references :: "pyval list \<Rightarrow> py_error + nat" where
  "count_references [] = Inr 0"
| "count_references (PDict d # vs) =
     (case py_len (case dict_find d key_r of None \<Rightarrow> PDict [] | Some r \<Rightarrow> r) of
        Inl e \<Rightarrow> Inl e
      | Inr n \<Rightarrow> (case count_references vs of Inl e \<Rightarrow> Inl e | Inr t \<Rightarrow> Inr (n + t)))"
| "count_references (v # vs) = Inl AttributeError"

text \<open>
  What a call of \<^verbatim>\<open>merge_json_files\<close> that returns leaves behind: the mapping it returns,
  the per-file error reports, the totals it printed (verses, cross-references), whether it
  opened the output file for writing, and the exception reported by the \<^verbatim>\<open>try\<close> around the
  write. The second argument is what the write does: \<open>None\<close> when it succeeds, the
  exception otherwise.
\<close>

record merge_result =
  merged_data :: pydict
  file_errors :: "(pystr \<times> py_error) list"
  totals :: "(nat \<times> nat) option"
  write_attempted :: bool
  save_error :: "py_error option"

definition merge_json_files :: "directory \<Rightarrow> py_error option \<Rightarrow> py_error + merge_result" where
  "merge_json_files dir write_outcome =
     (let json_files = sort_key fst (glob_json dir) in
      if length json_files = 0 then
        Inr \<lparr>merged_data = [], file_errors = [], totals = None,
             write_attempted = False, save_error = None\<rparr>
      else
        (case merge_files ([], []) json_files of
           (merged, errs) \<Rightarrow>
             (case count_references (map snd merged) of
                Inl e \<Rightarrow> Inl e
              | Inr total_references \<Rightarrow>
                  Inr \<lparr>merged_data = merged, file_errors = errs,
                       totals = Some (length merged, total_references),
                       write_attempted = True, save_error = write_outcome\<rparr>)))"

section \<open>The analyzer\<close>

text \<open>Lines 92 to 94: \<^verbatim>\<open>books\<close> is a dict from book name to count.\<close>

fun books_get :: "(pystr \<times> nat) list \<Rightarrow> pystr \<Rightarrow> nat option" where
  "books_get [] book = None"
| "books_get ((b, n) # books) book = (if b = book then Some n else books_get books book)"

fun books_set :: "(pystr \<times> nat) list \<Rightarrow> pystr \<Rightarrow> nat \<Rightarrow> (pystr \<times> nat) list" where
  "books_set [] book n = [(book, n)]"
| "books_set ((b, m) # books) book n =
     (if b = book then (b, n) # books else (b, m) # books_set books book n)"

definition count_book :: "(pystr \<times> nat) list \<Rightarrow> pystr \<Rightarrow> (pystr \<times> nat) list" where
  "count_book books book =
     (let books' = (if books_get books book = None then books_set books book 0 else books)
      in books_set books' book (the (books_get books' book) + 1))"

text \<open>Lines 88 to 94: the loop over the verse records, with no \<^verbatim>\<open>try\<close> around it.\<close>

fun tally :: "(pystr \<times> nat) list \<Rightarrow> pyval list \<Rightarrow> py_error + (pystr \<times> nat) list" where
  "tally books [] = Inr books"
| "tally books (PDict d # rest) =
     (let verse_ref = (case dict_find d key_v of None \<Rightarrow> PStr [] | Some x \<Rightarrow> x) in
      if py_truthy verse_ref then
        (case verse_ref of
           PStr s \<Rightarrow>
             (case py_split s of
                [] \<Rightarrow> Inl IndexError
              | book # _ \<Rightarrow> tally (count_book books book) rest)
         | _ \<Rightarrow> Inl AttributeError)
      else tally books rest)"
| "tally books (v # rest) = Inl AttributeError"

text \<open>Line 99: the ten books with the highest counts; Python's sort is stable, also with
  \<^verbatim>\<open>reverse=True\<close>.\<close>

definition top_books :: "(pystr \<times> nat) list \<Rightarrow> (pystr \<times> nat) list" where
  "top_books books = take 10 (sort_key (\<lambda>entry. - int (snd entry)) books)"

datatype analysis = NoData | BookStats "(pystr \<times> nat) list" "(pystr \<times> nat) list"

definition analyze_data :: "pydict \<Rightarrow> py_error + analysis" where
  "analyze_data merged =
     (if merged = [] then Inr NoData
      else (case tally [] (map snd merged) of
              Inl e \<Rightarrow> Inl e
            | Inr books \<Rightarrow> Inr (BookStats books (top_books books))))"

section \<open>The program\<close>

text \<open>Lines 121 and 122. \<open>Inl\<close> is an uncaught exception: the interpreter prints the
  traceback and the process exits with a non-zero status.\<close>

definition main :: "directory \<Rightarrow> py_error option \<Rightarrow> py_error + (merge_result \<times> analysis)" where
  "main dir write_outcome =
     (case merge_json_files dir write_outcome of
        Inl e \<Rightarrow> Inl e
      | Inr res \<Rightarrow>
          (case analyze_data (merged_data res) of
             Inl e \<Rightarrow> Inl e
           | Inr stats \<Rightarrow> Inr (res, stats)))"

section \<open>Input files of the data model\<close>

text \<open>
  A dict as \<^verbatim>\<open>json.load\<close> builds it has string keys, each once. A verse record is a dict
  whose \<^verbatim>\<open>r\<close>, when present, is such a dict and whose \<^verbatim>\<open>v\<close>, when present, is a string.
  A verse file is such a dict of verse records.
\<close>

fun is_str_key :: "pykey \<Rightarrow> bool" where
  "is_str_key (KStr s) = True"
| "is_str_key KNone = False"
| "is_str_key (KBool b) = False"
| "is_str_key (KInt i) = False"
| "is_str_key (KFloat w) = False"

definition json_dict :: "pydict \<Rightarrow> bool" where
  "json_dict d = (list_all (\<lambda>entry. is_str_key (fst entry)) d \<and> distinct (map fst d))"

fun is_record :: "pyval \<Rightarrow> bool" where
  "is_record (PDict d) =
     ((case dict_find d key_r of None \<Rightarrow> True | Some (PDict r) \<Rightarrow> json_dict r | Some _ \<Rightarrow> False)
      \<and> (case dict_find d key_v of None \<Rightarrow> True | Some (PStr s) \<Rightarrow> True | Some _ \<Rightarrow> False))"
| "is_record x = False"

fun is_verse_file :: "pyval \<Rightarrow> bool" where
  "is_verse_file (PDict d) = (json_dict d \<and> list_all (\<lambda>entry. is_record (snd entry)) d)"
| "is_verse_file x = False"

definition parsed_ok :: "loaded \<Rightarrow> bool" where
  "parsed_ok content = (case content of Inl e \<Rightarrow> False | Inr data \<Rightarrow> is_verse_file data)"

text \<open>The reference string of a record is empty or has a character that is not white space.\<close>

fun plain_reference :: "pyval \<Rightarrow> bool" where
  "plain_reference (PDict d) =
     (case dict_find d key_v of
        Some (PStr s) \<Rightarrow> s = [] \<or> list_ex (\<lambda>c. \<not> is_space c) s
      | _ \<Rightarrow> True)"
| "plain_reference x = True"

text \<open>A loaded value that is not a JSON object, and the same file seen as one whose load
  raises.\<close>

fun not_object :: "pyval \<Rightarrow> bool" where
  "not_object (PDict d) = False"
| "not_object x = True"

definition as_load_failure :: "loaded \<Rightarrow> loaded" where
  "as_load_failure content =
     (case content of
        Inl e \<Rightarrow> Inl e
      | Inr data \<Rightarrow> if not_object data then Inl AttributeError else Inr data)"

text \<open>The pairs of a file, the records filed under one identifier in a list of files (in the
  order of the list), the field of a record, its \<^verbatim>\<open>r\<close> sub-mapping, and the union of a list
  of sub-mappings in which a later one wins.\<close>

definition file_items :: "loaded \<Rightarrow> (pykey \<times> pyval) list" where
  "file_items content = (case content of Inr (PDict d) \<Rightarrow> d | _ \<Rightarrow> [])"

definition occurrences :: "pykey \<Rightarrow> directory \<Rightarrow> pyval list" where
  "occurrences verse_id files =
     map snd (filter (\<lambda>item. fst item = verse_id) (concat (map (\<lambda>entry. file_items (snd entry)) files)))"

fun field :: "pyval \<Rightarrow> pykey \<Rightarrow> pyval option" where
  "field (PDict d) k = dict_find d k"
| "field x k = None"

fun r_of :: "pyval \<Rightarrow> pydict option" where
  "r_of (PDict d) = (case dict_find d key_r of Some (PDict r) \<Rightarrow> Some r | _ \<Rightarrow> None)"
| "r_of x = None"

fun later_wins :: "pydict list \<Rightarrow> pykey \<Rightarrow> pyval option" where
  "later_wins [] k = None"
| "later_wins (r # rs) k = (case later_wins rs k of Some v \<Rightarrow> Some v | None \<Rightarrow> dict_find r k)"

subsection \<open>Example inputs\<close>

text \<open>The file names \<^verbatim>\<open>a.json\<close> and \<^verbatim>\<open>b.json\<close>, the identifier \<^verbatim>\<open>GEN.1.1\<close>, the reference
  \<^verbatim>\<open>Genesis 1:1\<close> and the two records of the example in the specification.\<close>

definition a_json :: pystr where
  "a_json = [97, 46, 106, 115, 111, 110]"

definition b_json :: pystr where
  "b_json = [98, 46, 106, 115, 111, 110]"

definition gen_1_1 :: pykey where
  "gen_1_1 = KStr [71, 69, 78, 46, 49, 46, 49]"

definition genesis_1_1 :: pystr where
  "genesis_1_1 = [71, 101, 110, 101, 115, 105, 115, 32, 49, 58, 49]"

definition record_a :: pyval where
  "record_a = PDict [(key_v, PStr genesis_1_1), (key_r, PDict [(KStr [120], PInt 1)])]"

definition record_b :: pyval where
  "record_b = PDict [(key_r, PDict [(KStr [121], PInt 2)])]"

definition record_without_r :: pyval where
  "record_without_r = PDict [(key_v, PStr genesis_1_1)]"

definition example_dir :: directory where
  "example_dir = [(b_json, Inr (PDict [(gen_1_1, record_b)])), (a_json, Inr (PDict [(gen_1_1, record_a)]))]"

section \<open>Properties\<close>

subsection \<open>Sorting the file list\<close>

lemma sort_key_eq_Nil [simp]: "sort_key f xs = [] \<longleftrightarrow> xs = []"
proof -
  have "length (sort_key f xs) = length xs" by simp
  then show ?thesis by (metis length_0_conv)
qed

subsection \<open>Files that are not JSON objects\<close>

lemma py_items_not_object: "not_object data \<Longrightarrow> py_items data = Inl AttributeError"
  by (cases data) simp_all

lemma process_file_as_load_failure:
  "process_file m (as_load_failure content) = process_file m content"
  by (cases content) (auto simp: as_load_failure_def process_file_def py_items_not_object)

lemma insort_key_map_entry:
  assumes "\<And>x. fst (g x) = fst x"
  shows "insort_key fst (g x) (map g xs) = map g (insort_key fst x xs)"
  by (induction xs) (simp_all add: assms)

lemma sort_key_map_entry:
  assumes "\<And>x. fst (g x) = fst x"
  shows "sort_key fst (map g xs) = map g (sort_key fst xs)"
  by (induction xs) (simp_all add: insort_key_map_entry [OF assms])

lemma glob_json_map_entry:
  assumes "\<And>x. fst (g x) = fst x"
  shows "glob_json (map g dir) = map g (glob_json dir)"
  by (induction dir) (simp_all add: glob_json_def assms)

lemma merge_files_as_load_failure:
  "merge_files st (map (\<lambda>entry. (fst entry, as_load_failure (snd entry))) files)
     = merge_files st files"
proof (induction files arbitrary: st)
  case Nil
  then show ?case by simp
next
  case (Cons entry files)
  obtain m errs where st: "st = (m, errs)" by (cases st)
  obtain name content where entry: "entry = (name, content)" by (cases entry)
  show ?case
    by (simp add: st entry process_file_as_load_failure Cons.IH split: prod.splits option.splits)
qed

text \<open>
  C10. A file whose JSON value is not an object is treated like a file that fails to load:
  \<^verbatim>\<open>data.items()\<close> raises \<^verbatim>\<open>AttributeError\<close> inside the \<^verbatim>\<open>try\<close>, so the combined mapping
  is left as it was, the error is reported under the file's name and the loop goes on with
  the next file. The whole run is the same as the run in which every such file is replaced
  by one whose load raises \<^verbatim>\<open>AttributeError\<close>.
\<close>

theorem non_object_file_is_skipped:
  "(not_object data \<longrightarrow>
      process_file merged (Inr data) = (merged, Some AttributeError) \<and>
      merge_files (merged, errs) ((name, Inr data) # rest)
        = merge_files (merged, errs @ [(name, AttributeError)]) rest) \<and>
   merge_json_files (map (\<lambda>entry. (fst entry, as_load_failure (snd entry))) dir) w
     = merge_json_files dir w"
proof -
  have "glob_json (map (\<lambda>entry. (fst entry, as_load_failure (snd entry))) dir)
          = map (\<lambda>entry. (fst entry, as_load_failure (snd entry))) (glob_json dir)"
    by (rule glob_json_map_entry) simp
  moreover have
    "sort_key fst (map (\<lambda>entry. (fst entry, as_load_failure (snd entry))) (glob_json dir))
       = map (\<lambda>entry. (fst entry, as_load_failure (snd entry))) (sort_key fst (glob_json dir))"
    by (rule sort_key_map_entry) simp
  ultimately have
    "merge_json_files (map (\<lambda>entry. (fst entry, as_load_failure (snd entry))) dir) w
       = merge_json_files dir w"
    by (simp add: merge_json_files_def merge_files_as_load_failure)
  then show ?thesis
    by (simp add: process_file_def py_items_not_object)
qed

theorem non_object_file_is_skipped_witness:
  "not_object (PList [PStr genesis_1_1]) \<and>
   process_file [(gen_1_1, record_a)] (Inr (PList [PStr genesis_1_1]))
     = ([(gen_1_1, record_a)], Some AttributeError) \<and>
   merge_json_files [(a_json, Inr (PList [PStr genesis_1_1]))] None
     = merge_json_files [(a_json, Inl AttributeError)] None"
  using non_object_file_is_skipped
    [of "PList [PStr genesis_1_1]" "[(gen_1_1, record_a)]" "[]" a_json "[]"
        "[(a_json, Inr (PList [PStr genesis_1_1]))]" None]
  by (simp add: as_load_failure_def)

subsection \<open>No input files\<close>

text \<open>
  C7. When no entry of the directory has a name ending in \<^verbatim>\<open>.json\<close>, the merge returns the
  empty mapping, raises nothing, reports no error and does not open the output file.
\<close>

theorem no_json_files:
  assumes "\<forall>entry \<in> set dir. \<not> ends_with dot_json (fst entry)"
  shows "merge_json_files dir w =
           Inr \<lparr>merged_data = [], file_errors = [], totals = None,
                write_attempted = False, save_error = None\<rparr>"
proof -
  have "glob_json dir = []"
    using assms by (auto simp: glob_json_def filter_empty_conv)
  then show ?thesis by (simp add: merge_json_files_def)
qed

theorem no_json_files_witness:
  "\<not> ends_with dot_json [97, 46, 112, 121] \<and>
   merge_json_files [([97, 46, 112, 121], Inl OSError)] (Some OSError) =
     Inr \<lparr>merged_data = [], file_errors = [], totals = None,
          write_attempted = False, save_error = None\<rparr>"
proof -
  have h: "\<forall>entry \<in> set [([97, 46, 112, 121], Inl OSError :: loaded)].
             \<not> ends_with dot_json (fst entry)"
    by (simp add: ends_with_def dot_json_def)
  show ?thesis using h no_json_files [OF h, of "Some OSError"] by simp
qed

subsection \<open>A failed write\<close>

text \<open>
  C8. In a run that reaches the write of the output file (there are input files and the
  totals of line 59 were computed) and in which the write raises, the function returns the
  mapping that the loop over the files built, with the failure reported; it is the mapping
  returned when the write succeeds, and the analysis that follows is the same.
\<close>

theorem failed_write_returns_merge:
  assumes "glob_json dir \<noteq> []"
    and "merge_files ([], []) (sort_key fst (glob_json dir)) = (merged, errs)"
    and "count_references (map snd merged) = Inr n"
  shows "merge_json_files dir (Some e) =
           Inr \<lparr>merged_data = merged, file_errors = errs, totals = Some (length merged, n),
                write_attempted = True, save_error = Some e\<rparr> \<and>
         map_sum id merged_data (merge_json_files dir (Some e))
           = map_sum id merged_data (merge_json_files dir None) \<and>
         map_sum id snd (main dir (Some e)) = map_sum id snd (main dir None)"
proof -
  have run: "merge_json_files dir w =
      Inr \<lparr>merged_data = merged, file_errors = errs, totals = Some (length merged, n),
           write_attempted = True, save_error = w\<rparr>" for w
    using assms by (simp add: merge_json_files_def Let_def)
  show ?thesis
    by (simp add: run main_def split: sum.splits)
qed

theorem failed_write_returns_merge_witness:
  "glob_json example_dir \<noteq> [] \<and>
   merge_json_files example_dir (Some OSError) =
     Inr \<lparr>merged_data =
            [(gen_1_1, PDict [(key_v, PStr genesis_1_1),
                              (key_r, PDict [(KStr [120], PInt 1), (KStr [121], PInt 2)])])],
          file_errors = [], totals = Some (1, 2),
          write_attempted = True, save_error = Some OSError\<rparr>"
proof -
  have g: "glob_json example_dir \<noteq> []"
    by (simp add: glob_json_def example_dir_def ends_with_def dot_json_def a_json_def b_json_def)
  have m: "merge_files ([], []) (sort_key fst (glob_json example_dir)) =
             ([(gen_1_1, PDict [(key_v, PStr genesis_1_1),
                                (key_r, PDict [(KStr [120], PInt 1), (KStr [121], PInt 2)])])], [])"
    by (simp add: glob_json_def example_dir_def ends_with_def dot_json_def a_json_def b_json_def
        process_file_def merge_verse_def record_a_def record_b_def key_r_def key_v_def gen_1_1_def)
  have c: "count_references (map snd
             [(gen_1_1, PDict [(key_v, PStr genesis_1_1),
                               (key_r, PDict [(KStr [120], PInt 1), (KStr [121], PInt 2)])])]) = Inr 2"
    by (simp add: key_r_def key_v_def)
  show ?thesis
    using g failed_write_returns_merge [OF g m c, of OSError] by simp
qed

subsection \<open>The analyzer on a reference of white space\<close>

text \<open>
  C3. A record whose \<^verbatim>\<open>v\<close> is the string of one space passes the test \<^verbatim>\<open>if verse_ref:\<close>,
  \<^verbatim>\<open>split()\<close> returns the empty list and \<^verbatim>\<open>[0]\<close> raises \<^verbatim>\<open>IndexError\<close>: the record is
  neither counted nor passed over.
\<close>

theorem whitespace_reference_raises:
  "analyze_data [(gen_1_1, PDict [(key_v, PStr [32])])] = Inl IndexError"
  by (simp add: analyze_data_def key_v_def py_split.simps is_space_def)

end
